theory Spec2Isabelle
  imports Complex_Main "HOL-Library.Word"
begin

section \<open>Numeric types and library functions\<close>

text \<open>
  The target is an 8-bit AVR board: \<open>long\<close> and \<open>unsigned long\<close> are 32 bits wide
  (two's complement, read with \<open>sint\<close> where the code treats them as signed).
  \<open>double\<close> and \<open>float\<close> are idealised as the real numbers, and \<open>sin\<close>, \<open>cos\<close>,
  \<open>atan2\<close> and the macro \<open>PI\<close> as their mathematical counterparts: rounding is
  outside the model, and every number stored in the model is finite. A division of
  doubles by zero does not trap: it yields an infinity or NaN, which no real number
  stands for; \<open>double_div\<close> below makes that outcome explicit.
\<close>

type_synonym long = "32 word"
type_synonym ulong = "32 word"
type_synonym double = real
type_synonym float = real

text \<open>The macro \<open>PI\<close> of Arduino.h.\<close>

definition PI :: double where
  "PI = pi"

text \<open>
  The C library's two-argument arctangent \<open>atan2(y, x)\<close>: the angle of the point
  \<open>(x, y)\<close>, with \<open>atan2(0, 0) = 0\<close>.
\<close>

definition atan2 :: "double \<Rightarrow> double \<Rightarrow> double" where
  "atan2 y x =
     (if 0 < x then arctan (y / x)
      else if x < 0 then (if 0 \<le> y then arctan (y / x) + pi else arctan (y / x) - pi)
      else if 0 < y then pi / 2
      else if y < 0 then - (pi / 2)
      else 0)"

text \<open>
  The macro \<open>constrain(amt, low, high)\<close> of Arduino.h:
  \<^verbatim>\<open>((amt)<(low)?(low):((amt)>(high)?(high):(amt)))\<close>.
\<close>

definition constrain :: "double \<Rightarrow> double \<Rightarrow> double \<Rightarrow> double" where
  "constrain amt low high = (if amt < low then low else if amt > high then high else amt)"


section \<open>Collaborators: encoders, clock, serial port\<close>

text \<open>
  Modelled from the spec: WheelEncoder.h is not among the sources. Section 6 of the
  specification gives the interface: \<open>read()\<close> returns the cumulative signed tick count,
  \<open>write(0)\<close> resets it, and the counts per revolution are an integer constant of the
  encoder. (\<open>write\<close> is a keyword of Isabelle: the method is \<open>write_enc\<close> here.)
\<close>

record WheelEncoder =
  ticks :: long
  cpr :: int

definition read :: "WheelEncoder \<Rightarrow> long" where
  "read e = ticks e"

definition write_enc :: "long \<Rightarrow> WheelEncoder \<Rightarrow> WheelEncoder" where
  "write_enc v e = e\<lparr>ticks := v\<rparr>"

definition getCountsPerRevolution :: "WheelEncoder \<Rightarrow> int" where
  "getCountsPerRevolution e = cpr e"

text \<open>What the serial port has been sent, in order.\<close>

datatype serial_item =
    Print_str string
  | Println_str string
  | Println_double double
  | Println_int int

text \<open>
  The board: the encoder objects, addressed by the pointers the odometer holds (two
  pointers may name the same object), the millisecond clock read by \<open>millis()\<close>, and
  the serial output so far. The clock and the encoder counts stand still during one
  call.
\<close>

record board =
  encoders :: "nat \<Rightarrow> WheelEncoder"
  clock :: ulong
  serial :: "serial_item list"

definition millis :: "board \<Rightarrow> ulong" where
  "millis b = clock b"

definition Serial_out :: "serial_item \<Rightarrow> board \<Rightarrow> board" where
  "Serial_out item b = b\<lparr>serial := serial b @ [item]\<rparr>"

text \<open>
  Modelled from the spec: Motor.h, which defines \<open>MOTOR_LEFT\<close> and \<open>MOTOR_RIGHT\<close>, is
  not among the sources. The specification names the two cells of every per-wheel array
  left and right; they are taken as the indices 0 and 1.
\<close>

definition MOTOR_LEFT :: nat where
  "MOTOR_LEFT = 0"

definition MOTOR_RIGHT :: nat where
  "MOTOR_RIGHT = 1"

section \<open>The odometer object\<close>

text \<open>
  Modelled from the spec: Odometer.h, which declares the member variables of class
  \<open>Odometer\<close>, is not among the sources. The fields are those Odometer.cpp reads and
  writes (section 3 of the specification lists the same data). The previous tick counts
  are \<open>long\<close>, as the local variables assigned to them are; the previous update time is
  \<open>unsigned long\<close>, as the result of \<open>millis()\<close> is; the counts per revolution are
  integers and the encode factor is the integer 1 or -1. A two-element array is a
  function of its index; \<open>encoder\<close> holds the addresses of the two encoder objects.
\<close>

record Odometer =
  encoder :: "nat \<Rightarrow> nat"
  wheelDiameter :: "nat \<Rightarrow> double"
  countsPerRevolution :: "nat \<Rightarrow> int"
  distancePerCount :: "nat \<Rightarrow> double"
  encodeFactor :: "nat \<Rightarrow> long"
  trackWidth :: double
  X :: double
  Y :: double
  heading :: double
  goalX :: double
  goalY :: double
  vLeft :: double
  vRight :: double
  omega :: double
  previousLeftEncoderCounts :: long
  previousRightEncoderCounts :: long
  previousUpdateTime :: ulong

subsection \<open>reset\<close>

text \<open>One pass of the loop of \<open>reset\<close>: \<open>encoder[i]->write(0)\<close>.\<close>

definition reset_wheel :: "Odometer \<Rightarrow> nat \<Rightarrow> board \<Rightarrow> board" where
  "reset_wheel od i b =
     b\<lparr>encoders := (encoders b)(encoder od i := write_enc 0 (encoders b (encoder od i)))\<rparr>"

definition reset :: "Odometer \<times> board \<Rightarrow> Odometer \<times> board" where
  "reset = (\<lambda>(od, b).
     let b = fold (reset_wheel od) [0..<2] b;
         od = od\<lparr>previousLeftEncoderCounts := 0\<rparr>;
         od = od\<lparr>previousRightEncoderCounts := 0\<rparr>;
         od = od\<lparr>previousUpdateTime := millis b\<rparr>
     in (od, b))"

subsection \<open>setup\<close>

text \<open>
  One pass of the loop of \<open>setup\<close>, for wheel \<open>i\<close>. The counts per revolution are
  asked of the encoder just stored in \<open>encoder[i]\<close>. Nothing is checked.
\<close>

definition setup_wheel ::
  "(nat \<Rightarrow> nat) \<Rightarrow> (nat \<Rightarrow> bool) \<Rightarrow> (nat \<Rightarrow> double) \<Rightarrow> board \<Rightarrow> nat \<Rightarrow> Odometer \<Rightarrow> Odometer" where
  "setup_wheel inEncoder isEncoderForward inWheelDiameter b i od =
     (let od = od\<lparr>encoder := (encoder od)(i := inEncoder i)\<rparr>;
          od = od\<lparr>wheelDiameter := (wheelDiameter od)(i := inWheelDiameter i)\<rparr>;
          od = od\<lparr>countsPerRevolution :=
                    (countsPerRevolution od)(i := getCountsPerRevolution (encoders b (encoder od i)))\<rparr>;
          od = od\<lparr>distancePerCount :=
                    (distancePerCount od)
                      (i := (PI * wheelDiameter od i) / real_of_int (countsPerRevolution od i))\<rparr>
      in if isEncoderForward i
         then od\<lparr>encodeFactor := (encodeFactor od)(i := 1)\<rparr>
         else od\<lparr>encodeFactor := (encodeFactor od)(i := - 1)\<rparr>)"

text \<open>
  \<open>Odometer::setup\<close> (\<open>setup\<close> is a keyword of Isabelle). It returns \<open>void\<close> and has
  no failing path: its result is the new state of the odometer and of the board.
\<close>

definition Odometer_setup ::
  "(nat \<Rightarrow> nat) \<Rightarrow> (nat \<Rightarrow> bool) \<Rightarrow> (nat \<Rightarrow> double) \<Rightarrow> double \<Rightarrow> Odometer \<times> board
     \<Rightarrow> Odometer \<times> board" where
  "Odometer_setup inEncoder isEncoderForward inWheelDiameter inTrackWidth = (\<lambda>(od, b).
     let od = fold (setup_wheel inEncoder isEncoderForward inWheelDiameter b) [0..<2] od;
         od = od\<lparr>X := 0\<rparr>;
         od = od\<lparr>Y := 0\<rparr>;
         od = od\<lparr>heading := 0\<rparr>;
         od = od\<lparr>goalX := 0\<rparr>;
         od = od\<lparr>goalY := 0\<rparr>;
         od = od\<lparr>vLeft := 0\<rparr>;
         od = od\<lparr>vRight := 0\<rparr>;
         od = od\<lparr>trackWidth := inTrackWidth\<rparr>;
         b = Serial_out (Print_str ''DistancePerCount[0]:  '') b;
         b = Serial_out (Println_double (distancePerCount od 0)) b;
         b = Serial_out (Print_str ''trackWidth:  '') b;
         b = Serial_out (Println_double (trackWidth od)) b;
         b = Serial_out (Print_str ''countsPerRevolution[0]:  '') b;
         b = Serial_out (Println_int (countsPerRevolution od 0)) b
     in reset (od, b))"

subsection \<open>setCurrentPosition, setGoalPosition\<close>

definition setCurrentPosition :: "double \<Rightarrow> double \<Rightarrow> double \<Rightarrow> Odometer \<times> board \<Rightarrow> Odometer \<times> board" where
  "setCurrentPosition x y inHeading = (\<lambda>(od, b).
     let (od, b) = reset (od, b);
         od = od\<lparr>X := x\<rparr>;
         od = od\<lparr>Y := y\<rparr>;
         od = od\<lparr>heading := inHeading\<rparr>
     in (od, b))"

definition setGoalPosition :: "double \<Rightarrow> double \<Rightarrow> Odometer \<Rightarrow> Odometer" where
  "setGoalPosition x y od = od\<lparr>goalX := x, goalY := y\<rparr>"

subsection \<open>update\<close>

text \<open>\<open>calculateDeltasCrude\<close> returns the pair it writes through its two pointers.\<close>

definition calculateDeltasCrude :: "Odometer \<Rightarrow> double \<Rightarrow> double \<Rightarrow> double \<times> double" where
  "calculateDeltasCrude od deltaDistanceLeft deltaDistanceRight =
     (let deltaDistance = 0.5 * (deltaDistanceLeft + deltaDistanceRight)
      in (deltaDistance * cos (heading od), deltaDistance * sin (heading od)))"

text \<open>
  \<open>update\<close>. The tick counts and their differences are \<open>long\<close>: products and
  differences wrap around at 32 bits, and \<open>sint\<close> reads them where the code converts
  them to \<open>double\<close> or compares them with 32000. The quotient by the track width is
  the quotient of real numbers; what the code stores when the track width is zero is
  the subject of \<open>update_heading_double\<close> below.
\<close>

definition update :: "Odometer \<times> board \<Rightarrow> Odometer \<times> board" where
  "update = (\<lambda>(od, b).
     let leftEncoderCounts =
           read (encoders b (encoder od MOTOR_LEFT)) * encodeFactor od MOTOR_LEFT;
         rightEncoderCounts =
           read (encoders b (encoder od MOTOR_RIGHT)) * encodeFactor od MOTOR_RIGHT;
         deltaLeftTicks = leftEncoderCounts - previousLeftEncoderCounts od;
         deltaRightTicks = rightEncoderCounts - previousRightEncoderCounts od;
         od = od\<lparr>previousLeftEncoderCounts := leftEncoderCounts\<rparr>;
         od = od\<lparr>previousRightEncoderCounts := rightEncoderCounts\<rparr>;
         currentTime = millis b;
         deltaTime = currentTime - previousUpdateTime od;
         od = od\<lparr>previousUpdateTime := currentTime\<rparr>;
         deltaDistanceLeft = real_of_int (sint deltaLeftTicks) * distancePerCount od MOTOR_LEFT;
         deltaDistanceRight = real_of_int (sint deltaRightTicks) * distancePerCount od MOTOR_RIGHT;
         deltaHeading = (deltaDistanceRight - deltaDistanceLeft) / trackWidth od;
         (deltaX, deltaY) = calculateDeltasCrude od deltaDistanceLeft deltaDistanceRight;
         od = (if deltaTime \<noteq> 0
               then od\<lparr>vLeft := deltaDistanceLeft * 1000.0 / real_of_int (sint deltaTime),
                       vRight := deltaDistanceRight * 1000.0 / real_of_int (sint deltaTime),
                       omega := deltaHeading * 1000.0 / real_of_int (sint deltaTime)\<rparr>
               else od);
         od = od\<lparr>X := X od + deltaX\<rparr>;
         od = od\<lparr>Y := Y od + deltaY\<rparr>;
         od = od\<lparr>heading := heading od + deltaHeading\<rparr>;
         b = (if vLeft od = 0 then Serial_out (Println_str ''Zero left velocity'') b else b);
         b = (if vRight od = 0 then Serial_out (Println_str ''Zero right velocity'') b else b);
         od = od\<lparr>heading := atan2 (sin (heading od)) (cos (heading od))\<rparr>
     in if 32000 < sint (previousLeftEncoderCounts od) \<or> 32000 < sint (previousRightEncoderCounts od)
        then reset (od, Serial_out (Println_str ''Resetting odometers.'') b)
        else (od, b))"


subsection \<open>Read-only operations\<close>

definition getLinearVelocity :: "Odometer \<Rightarrow> double" where
  "getLinearVelocity od = (vLeft od + vRight od) / 2.0"

text \<open>
  \<open>translateToLeftRightVelocities\<close> returns the pair \<open>(*normLeft, *normRight)\<close>; it
  uses no member of the object.
\<close>

definition translateToLeftRightVelocities :: "float \<Rightarrow> float \<Rightarrow> float \<times> float" where
  "translateToLeftRightVelocities normedLinearVelocity normedLinearAngularVelocity =
     (let leftVelocity = normedLinearVelocity;
          rightVelocity = normedLinearVelocity;
          leftVelocity = leftVelocity - normedLinearAngularVelocity;
          rightVelocity = rightVelocity + normedLinearAngularVelocity;
          NormalizedLeftCV = constrain leftVelocity (- 1) 1;
          NormalizedRightCV = constrain rightVelocity (- 1) 1
      in (NormalizedLeftCV, NormalizedRightCV))"

definition calculateGoalHeading :: "Odometer \<Rightarrow> double" where
  "calculateGoalHeading od = atan2 (goalY od - Y od) (goalX od - X od)"

text \<open>The overload of \<open>getNormalizedHeadingError\<close> that takes the required heading.\<close>

definition getNormalizedHeadingError :: "Odometer \<Rightarrow> double \<Rightarrow> double" where
  "getNormalizedHeadingError od requiredHeading =
     (let headingDiff = heading od - requiredHeading
      in atan2 (sin headingDiff) (cos headingDiff) / PI)"

text \<open>The overload without argument steers at the goal point.\<close>

definition getNormalizedHeadingError_goal :: "Odometer \<Rightarrow> double" where
  "getNormalizedHeadingError_goal od = getNormalizedHeadingError od (calculateGoalHeading od)"

section \<open>The specification's formulas\<close>

text \<open>
  The midpoint (Euler) step as the specification words it, for signed tick deltas
  \<open>dL\<close> and \<open>dR\<close>, distances per count \<open>cL\<close> and \<open>cR\<close>, track width \<open>w\<close> and the heading
  \<open>h\<close> held before the update: the heading changes by the difference of the two arc
  lengths over the track width, and the average of the two arc lengths is projected on
  \<open>h\<close>.
\<close>

definition midpoint_deltaHeading :: "int \<Rightarrow> int \<Rightarrow> real \<Rightarrow> real \<Rightarrow> real \<Rightarrow> real" where
  "midpoint_deltaHeading dL dR cL cR w = (real_of_int dR * cR - real_of_int dL * cL) / w"

definition midpoint_forward :: "int \<Rightarrow> int \<Rightarrow> real \<Rightarrow> real \<Rightarrow> real" where
  "midpoint_forward dL dR cL cR = (real_of_int dL * cL + real_of_int dR * cR) / 2"

definition midpoint_deltaX :: "int \<Rightarrow> int \<Rightarrow> real \<Rightarrow> real \<Rightarrow> real \<Rightarrow> real" where
  "midpoint_deltaX dL dR cL cR h = midpoint_forward dL dR cL cR * cos h"

definition midpoint_deltaY :: "int \<Rightarrow> int \<Rightarrow> real \<Rightarrow> real \<Rightarrow> real \<Rightarrow> real" where
  "midpoint_deltaY dL dR cL cR h = midpoint_forward dL dR cL cR * sin h"

text \<open>
  The tick count of a wheel as an update sees it: the count read from the wheel's
  encoder, with the direction sign applied. It is also what the update stores as the
  previous count before its overflow guard runs.
\<close>

definition countsLeft :: "Odometer \<Rightarrow> board \<Rightarrow> long" where
  "countsLeft od b = read (encoders b (encoder od MOTOR_LEFT)) * encodeFactor od MOTOR_LEFT"

definition countsRight :: "Odometer \<Rightarrow> board \<Rightarrow> long" where
  "countsRight od b = read (encoders b (encoder od MOTOR_RIGHT)) * encodeFactor od MOTOR_RIGHT"

text \<open>The tick deltas of an update: the signed difference to the previous count.\<close>

definition deltaTicksLeft :: "Odometer \<Rightarrow> board \<Rightarrow> int" where
  "deltaTicksLeft od b = sint (countsLeft od b - previousLeftEncoderCounts od)"

definition deltaTicksRight :: "Odometer \<Rightarrow> board \<Rightarrow> int" where
  "deltaTicksRight od b = sint (countsRight od b - previousRightEncoderCounts od)"

text \<open>The pose one update produces from \<open>od\<close> on board \<open>b\<close>, by the midpoint step.\<close>

definition midpoint_X :: "Odometer \<Rightarrow> board \<Rightarrow> real" where
  "midpoint_X od b =
     X od + midpoint_deltaX (deltaTicksLeft od b) (deltaTicksRight od b)
              (distancePerCount od MOTOR_LEFT) (distancePerCount od MOTOR_RIGHT) (heading od)"

definition midpoint_Y :: "Odometer \<Rightarrow> board \<Rightarrow> real" where
  "midpoint_Y od b =
     Y od + midpoint_deltaY (deltaTicksLeft od b) (deltaTicksRight od b)
              (distancePerCount od MOTOR_LEFT) (distancePerCount od MOTOR_RIGHT) (heading od)"

definition midpoint_heading :: "Odometer \<Rightarrow> board \<Rightarrow> real" where
  "midpoint_heading od b =
     heading od + midpoint_deltaHeading (deltaTicksLeft od b) (deltaTicksRight od b)
                    (distancePerCount od MOTOR_LEFT) (distancePerCount od MOTOR_RIGHT)
                    (trackWidth od)"

text \<open>The clamp of the specification's mixer: a value cut to the interval from -1 to 1.\<close>

definition clamp_unit :: "real \<Rightarrow> real" where
  "clamp_unit v = max (- 1) (min 1 v)"


section \<open>A sample configuration\<close>

text \<open>
  Two encoders of 100 counts per revolution at the addresses 0 and 1, the left one at
  120 ticks and the right one at 140; an odometer that last saw both at 100 ticks, at
  the clock's present reading.
\<close>

definition sample_encoders :: "nat \<Rightarrow> WheelEncoder" where
  "sample_encoders a = (if a = 0 then \<lparr>ticks = 120, cpr = 100\<rparr> else \<lparr>ticks = 140, cpr = 100\<rparr>)"

definition sample_board :: board where
  "sample_board = \<lparr>encoders = sample_encoders, clock = 5000, serial = []\<rparr>"

definition sample_odometer :: Odometer where
  "sample_odometer =
     \<lparr>encoder = (\<lambda>i. i), wheelDiameter = (\<lambda>i. 10), countsPerRevolution = (\<lambda>i. 100),
      distancePerCount = (\<lambda>i. 1 / 4), encodeFactor = (\<lambda>i. 1), trackWidth = 20,
      X = 1, Y = 2, heading = 0, goalX = 7, goalY = 8, vLeft = 3, vRight = 4, omega = 5,
      previousLeftEncoderCounts = 100, previousRightEncoderCounts = 100,
      previousUpdateTime = 5000\<rparr>"

text \<open>Arguments for a call of \<open>setup\<close>: the two encoder addresses, both encoders
  running forward, and wheel diameters of 10, or of -10 for a malformed configuration.\<close>

definition sample_pointers :: "nat \<Rightarrow> nat" where
  "sample_pointers i = i"

definition forward_both :: "nat \<Rightarrow> bool" where
  "forward_both i = True"

definition sample_diameters :: "nat \<Rightarrow> double" where
  "sample_diameters i = 10"

definition negative_diameters :: "nat \<Rightarrow> double" where
  "negative_diameters i = - 10"

text \<open>
  Two more boards: one whose left encoder has just passed the threshold of the overflow
  guard, and one whose left encoder has run backwards to the least 32-bit count while
  the right one stands exactly at the threshold.
\<close>

definition overflow_encoders :: "nat \<Rightarrow> WheelEncoder" where
  "overflow_encoders a =
     (if a = 0 then \<lparr>ticks = 32001, cpr = 100\<rparr> else \<lparr>ticks = 140, cpr = 100\<rparr>)"

definition overflow_board :: board where
  "overflow_board = \<lparr>encoders = overflow_encoders, clock = 5040, serial = []\<rparr>"

definition reverse_encoders :: "nat \<Rightarrow> WheelEncoder" where
  "reverse_encoders a =
     (if a = 0 then \<lparr>ticks = - 2147483648, cpr = 100\<rparr> else \<lparr>ticks = 32000, cpr = 100\<rparr>)"

definition reverse_board :: board where
  "reverse_board = \<lparr>encoders = reverse_encoders, clock = 5040, serial = []\<rparr>"




section \<open>Properties\<close>

lemma upt_0_2: "[0..<2] = [0, Suc 0]"
  by (simp add: upt_rec)

lemma reset_board:
  "snd (reset (od, b)) =
     b\<lparr>encoders := ((encoders b)(encoder od 0 := write_enc 0 (encoders b (encoder od 0))))
                      (encoder od 1 := write_enc 0 (((encoders b)(encoder od 0 := write_enc 0 (encoders b (encoder od 0)))) (encoder od 1)))\<rparr>"
  by (simp add: reset_def upt_0_2 reset_wheel_def Let_def)

lemma reset_odometer:
  "fst (reset (od, b)) =
     od\<lparr>previousLeftEncoderCounts := 0, previousRightEncoderCounts := 0,
        previousUpdateTime := clock b\<rparr>"
  by (simp add: reset_def upt_0_2 reset_wheel_def Let_def millis_def)

lemma reset_ticks:
  "i < 2 \<Longrightarrow> ticks (encoders (snd (reset (od, b))) (encoder od i)) = 0"
  by (cases "i = 0") (auto simp: reset_board write_enc_def less_2_cases_iff)

subsection \<open>The range of atan2\<close>


subsection \<open>What update does, field by field\<close>

lemma update_X: "X (fst (update (od, b))) = midpoint_X od b"
  by (simp add: update_def Let_def calculateDeltasCrude_def reset_odometer midpoint_X_def
      midpoint_deltaX_def midpoint_forward_def deltaTicksLeft_def deltaTicksRight_def
      countsLeft_def countsRight_def)

lemma update_Y: "Y (fst (update (od, b))) = midpoint_Y od b"
  by (simp add: update_def Let_def calculateDeltasCrude_def reset_odometer midpoint_Y_def
      midpoint_deltaY_def midpoint_forward_def deltaTicksLeft_def deltaTicksRight_def
      countsLeft_def countsRight_def)

lemma update_heading:
  "heading (fst (update (od, b))) =
     atan2 (sin (midpoint_heading od b)) (cos (midpoint_heading od b))"
  by (simp add: update_def Let_def calculateDeltasCrude_def reset_odometer midpoint_heading_def
      midpoint_deltaHeading_def deltaTicksLeft_def deltaTicksRight_def
      countsLeft_def countsRight_def)

lemma update_velocities_zero_time:
  "millis b = previousUpdateTime od \<Longrightarrow>
     vLeft (fst (update (od, b))) = vLeft od \<and>
     vRight (fst (update (od, b))) = vRight od \<and>
     omega (fst (update (od, b))) = omega od"
  by (simp add: update_def Let_def calculateDeltasCrude_def reset_odometer)

lemma update_encoder: "encoder (fst (update (od, b))) = encoder od"
  by (simp add: update_def Let_def calculateDeltasCrude_def reset_odometer)

lemma update_reset_odometer:
  "32000 < sint (countsLeft od b) \<or> 32000 < sint (countsRight od b) \<Longrightarrow>
     previousLeftEncoderCounts (fst (update (od, b))) = 0 \<and>
     previousRightEncoderCounts (fst (update (od, b))) = 0 \<and>
     previousUpdateTime (fst (update (od, b))) = millis b"
  by (erule disjE)
     (simp_all add: update_def Let_def calculateDeltasCrude_def reset_odometer
      countsLeft_def countsRight_def millis_def Serial_out_def)

lemma reset_ticks_gen:
  "i < 2 \<Longrightarrow> encoder od' = encoder od \<Longrightarrow>
     ticks (encoders (snd (reset (od', b))) (encoder od i)) = 0"
  using reset_ticks [of i od' b] by simp

lemma reset_clock: "clock (snd (reset (od, b))) = clock b"
  by (simp add: reset_board)

lemma reset_serial: "serial (snd (reset (od, b))) = serial b"
  by (simp add: reset_board)

lemma update_reset_board:
  "32000 < sint (countsLeft od b) \<or> 32000 < sint (countsRight od b) \<Longrightarrow> i < 2 \<Longrightarrow>
     read (encoders (snd (update (od, b))) (encoder od i)) = 0"
  by (erule disjE)
     (simp_all add: update_def Let_def calculateDeltasCrude_def countsLeft_def countsRight_def
       read_def reset_ticks_gen)

lemma update_reset_serial:
  "32000 < sint (countsLeft od b) \<or> 32000 < sint (countsRight od b) \<Longrightarrow>
     Println_str ''Resetting odometers.'' \<in> set (drop (length (serial b)) (serial (snd (update (od, b)))))"
  by (erule disjE)
     (simp_all add: update_def Let_def calculateDeltasCrude_def countsLeft_def countsRight_def
      reset_serial Serial_out_def)

lemma update_quiet_odometer:
  "sint (countsLeft od b) \<le> 32000 \<Longrightarrow> sint (countsRight od b) \<le> 32000 \<Longrightarrow>
     previousLeftEncoderCounts (fst (update (od, b))) = countsLeft od b \<and>
     previousRightEncoderCounts (fst (update (od, b))) = countsRight od b \<and>
     previousUpdateTime (fst (update (od, b))) = millis b"
  by (simp add: update_def Let_def calculateDeltasCrude_def
      countsLeft_def countsRight_def millis_def Serial_out_def)

lemma update_quiet_board:
  "sint (countsLeft od b) \<le> 32000 \<Longrightarrow> sint (countsRight od b) \<le> 32000 \<Longrightarrow>
     encoders (snd (update (od, b))) = encoders b \<and>
     clock (snd (update (od, b))) = clock b \<and>
     Println_str ''Resetting odometers.'' \<notin> set (drop (length (serial b)) (serial (snd (update (od, b)))))"
  by (simp add: update_def Let_def calculateDeltasCrude_def
      countsLeft_def countsRight_def millis_def Serial_out_def)

subsection \<open>What setup does\<close>

lemma setup_wheels:
  "fold (setup_wheel inE fwd d b) [0..<2] od =
     setup_wheel inE fwd d b 1 (setup_wheel inE fwd d b 0 od)"
  by (simp add: upt_0_2)

lemma setup_distancePerCount:
  "i < 2 \<Longrightarrow>
     distancePerCount (fst (Odometer_setup inE fwd d tw (od, b))) i =
       PI * d i / real_of_int (getCountsPerRevolution (encoders b (inE i)))"
  by (cases "i = 0")
     (auto simp: Odometer_setup_def setup_wheels setup_wheel_def Let_def reset_odometer
       less_2_cases_iff)

lemma setup_omega: "omega (fst (Odometer_setup inE fwd d tw (od, b))) = omega od"
  by (simp add: Odometer_setup_def setup_wheels setup_wheel_def Let_def reset_odometer)

lemma setup_zeroed:
  "X (fst (Odometer_setup inE fwd d tw (od, b))) = 0 \<and>
   Y (fst (Odometer_setup inE fwd d tw (od, b))) = 0 \<and>
   heading (fst (Odometer_setup inE fwd d tw (od, b))) = 0 \<and>
   goalX (fst (Odometer_setup inE fwd d tw (od, b))) = 0 \<and>
   goalY (fst (Odometer_setup inE fwd d tw (od, b))) = 0 \<and>
   vLeft (fst (Odometer_setup inE fwd d tw (od, b))) = 0 \<and>
   vRight (fst (Odometer_setup inE fwd d tw (od, b))) = 0"
  by (simp add: Odometer_setup_def setup_wheels setup_wheel_def Let_def reset_odometer)


subsection \<open>The sample configuration, evaluated\<close>

lemma sample_deltas:
  "deltaTicksLeft sample_odometer sample_board = 20"
  "deltaTicksRight sample_odometer sample_board = 40"
  by (simp_all add: deltaTicksLeft_def deltaTicksRight_def countsLeft_def countsRight_def
      sample_odometer_def sample_board_def sample_encoders_def read_def MOTOR_LEFT_def MOTOR_RIGHT_def)

lemma sample_pose:
  "midpoint_X sample_odometer sample_board = 17 / 2"
  "midpoint_Y sample_odometer sample_board = 2"
  "midpoint_heading sample_odometer sample_board = 1 / 4"
  by (simp_all add: midpoint_X_def midpoint_Y_def midpoint_heading_def sample_deltas
      midpoint_deltaX_def midpoint_deltaY_def midpoint_forward_def midpoint_deltaHeading_def)
     (simp_all add: sample_odometer_def MOTOR_LEFT_def MOTOR_RIGHT_def)

lemma overflow_counts:
  "countsLeft sample_odometer overflow_board = 32001"
  "countsRight sample_odometer overflow_board = 140"
  by (simp_all add: countsLeft_def countsRight_def
      sample_odometer_def overflow_board_def overflow_encoders_def read_def MOTOR_LEFT_def MOTOR_RIGHT_def)

lemma reverse_counts:
  "countsLeft sample_odometer reverse_board = - 2147483648"
  "countsRight sample_odometer reverse_board = 32000"
  by (simp_all add: countsLeft_def countsRight_def
      sample_odometer_def reverse_board_def reverse_encoders_def read_def MOTOR_LEFT_def MOTOR_RIGHT_def)

subsection \<open>The heading as a double\<close>





subsection \<open>Claims\<close>

text \<open>
  C7. Every call of \<open>reset\<close> leaves both encoders the odometer points to with a count
  of zero, sets both previous tick counts to zero, stamps the previous update time with
  the clock's reading, and leaves \<open>X\<close>, \<open>Y\<close> and \<open>heading\<close> as they were.
\<close>

theorem reset_effect:
  "read (encoders (snd (reset (od, b))) (encoder od MOTOR_LEFT)) = 0 \<and>
   read (encoders (snd (reset (od, b))) (encoder od MOTOR_RIGHT)) = 0 \<and>
   previousLeftEncoderCounts (fst (reset (od, b))) = 0 \<and>
   previousRightEncoderCounts (fst (reset (od, b))) = 0 \<and>
   previousUpdateTime (fst (reset (od, b))) = millis b \<and>
   X (fst (reset (od, b))) = X od \<and>
   Y (fst (reset (od, b))) = Y od \<and>
   heading (fst (reset (od, b))) = heading od"
  by (simp add: reset_odometer reset_ticks read_def MOTOR_LEFT_def MOTOR_RIGHT_def millis_def)

text \<open>
  C8. \<open>setup\<close> zeroes the pose, the goal and the two wheel velocities, but it never
  assigns \<open>omega\<close>: an odometer whose angular velocity is 5 when \<open>setup\<close> is called
  still has the angular velocity 5 afterwards, with both wheel velocities at 0.
\<close>

theorem setup_leaves_omega:
  "omega sample_odometer = 5 \<and>
   vLeft (fst (Odometer_setup sample_pointers forward_both sample_diameters 20
     (sample_odometer, sample_board))) = 0 \<and>
   vRight (fst (Odometer_setup sample_pointers forward_both sample_diameters 20
     (sample_odometer, sample_board))) = 0 \<and>
   omega (fst (Odometer_setup sample_pointers forward_both sample_diameters 20
     (sample_odometer, sample_board))) = 5"
  by (simp add: setup_omega setup_zeroed) (simp add: sample_odometer_def)

text \<open>
  C4, as stated, fails: \<open>setup\<close> checks nothing and has no way to report an error. Called
  with wheel diameters of -10 and encoders of 100 counts per revolution, it completes
  and stores the negative distance per count \<open>-\<pi>/10\<close> for the left wheel.
\<close>

theorem setup_negative_diameter_accepted:
  "negative_diameters MOTOR_LEFT \<le> 0 \<and>
   distancePerCount (fst (Odometer_setup sample_pointers forward_both negative_diameters 20
     (sample_odometer, sample_board))) MOTOR_LEFT = - pi / 10 \<and>
   distancePerCount (fst (Odometer_setup sample_pointers forward_both negative_diameters 20
     (sample_odometer, sample_board))) MOTOR_LEFT < 0"
  by (simp add: setup_distancePerCount MOTOR_LEFT_def negative_diameters_def PI_def
      getCountsPerRevolution_def sample_board_def sample_encoders_def sample_pointers_def)

text \<open>
  C4, amended. \<open>setup\<close> accepts every configuration: whenever the counts per revolution
  of both encoders are other than zero, it stores for each wheel the distance per count
  \<open>\<pi> \<sqdot> diameter / counts per revolution\<close>, whatever the signs of the diameter and of
  the counts.
\<close>

theorem setup_stores_quotient:
  assumes "getCountsPerRevolution (encoders b (inE MOTOR_LEFT)) \<noteq> 0"
    and "getCountsPerRevolution (encoders b (inE MOTOR_RIGHT)) \<noteq> 0"
  shows "distancePerCount (fst (Odometer_setup inE fwd d tw (od, b))) MOTOR_LEFT =
           pi * d MOTOR_LEFT / real_of_int (getCountsPerRevolution (encoders b (inE MOTOR_LEFT))) \<and>
         distancePerCount (fst (Odometer_setup inE fwd d tw (od, b))) MOTOR_RIGHT =
           pi * d MOTOR_RIGHT / real_of_int (getCountsPerRevolution (encoders b (inE MOTOR_RIGHT)))"
  by (simp add: setup_distancePerCount MOTOR_LEFT_def MOTOR_RIGHT_def PI_def)

theorem setup_stores_quotient_witness:
  "getCountsPerRevolution (encoders sample_board (sample_pointers MOTOR_LEFT)) \<noteq> 0 \<and>
   getCountsPerRevolution (encoders sample_board (sample_pointers MOTOR_RIGHT)) \<noteq> 0 \<and>
   distancePerCount (fst (Odometer_setup sample_pointers forward_both negative_diameters 20
     (sample_odometer, sample_board))) MOTOR_LEFT = - pi / 10 \<and>
   distancePerCount (fst (Odometer_setup sample_pointers forward_both negative_diameters 20
     (sample_odometer, sample_board))) MOTOR_RIGHT = - pi / 10"
proof -
  have l: "getCountsPerRevolution (encoders sample_board (sample_pointers MOTOR_LEFT)) = 100"
    by (simp add: getCountsPerRevolution_def sample_board_def sample_encoders_def)
  have r: "getCountsPerRevolution (encoders sample_board (sample_pointers MOTOR_RIGHT)) = 100"
    by (simp add: getCountsPerRevolution_def sample_board_def sample_encoders_def)
  have "getCountsPerRevolution (encoders sample_board (sample_pointers MOTOR_LEFT)) \<noteq> 0"
    and "getCountsPerRevolution (encoders sample_board (sample_pointers MOTOR_RIGHT)) \<noteq> 0"
    by (simp_all add: l r)
  from setup_stores_quotient [OF this, of forward_both negative_diameters 20 sample_odometer]
  show ?thesis by (simp add: l r negative_diameters_def)
qed

text \<open>
  C6. \<open>translateToLeftRightVelocities\<close> takes the two commands and nothing of the
  object, and returns linear minus angular for the left wheel and linear plus angular
  for the right one, each cut to the interval from -1 to 1; (1, 0) gives (1, 1) and
  (0, 1) gives (-1, 1).
\<close>

theorem translate_mixer:
  "translateToLeftRightVelocities l a = (clamp_unit (l - a), clamp_unit (l + a)) \<and>
   - 1 \<le> fst (translateToLeftRightVelocities l a) \<and>
   fst (translateToLeftRightVelocities l a) \<le> 1 \<and>
   - 1 \<le> snd (translateToLeftRightVelocities l a) \<and>
   snd (translateToLeftRightVelocities l a) \<le> 1 \<and>
   translateToLeftRightVelocities 1 0 = (1, 1) \<and>
   translateToLeftRightVelocities 0 1 = (- 1, 1)"
  by (simp add: translateToLeftRightVelocities_def constrain_def clamp_unit_def Let_def max_def min_def)


text \<open>
  C1. Every update advances the pose by the midpoint step for its tick deltas (taken
  after the direction sign): \<open>X\<close> and \<open>Y\<close> grow by the average of the two arc lengths
  projected on the heading held before the update, and the heading is the old heading
  plus the difference of the arc lengths over the track width, wrapped by
  \<open>atan2 (sin h) (cos h)\<close>.
\<close>

theorem update_midpoint_step:
  "X (fst (update (od, b))) =
     X od + midpoint_deltaX (deltaTicksLeft od b) (deltaTicksRight od b)
              (distancePerCount od MOTOR_LEFT) (distancePerCount od MOTOR_RIGHT) (heading od) \<and>
   Y (fst (update (od, b))) =
     Y od + midpoint_deltaY (deltaTicksLeft od b) (deltaTicksRight od b)
              (distancePerCount od MOTOR_LEFT) (distancePerCount od MOTOR_RIGHT) (heading od) \<and>
   heading (fst (update (od, b))) =
     atan2 (sin (heading od + midpoint_deltaHeading (deltaTicksLeft od b) (deltaTicksRight od b)
                    (distancePerCount od MOTOR_LEFT) (distancePerCount od MOTOR_RIGHT)
                    (trackWidth od)))
           (cos (heading od + midpoint_deltaHeading (deltaTicksLeft od b) (deltaTicksRight od b)
                    (distancePerCount od MOTOR_LEFT) (distancePerCount od MOTOR_RIGHT)
                    (trackWidth od)))"
  by (simp add: update_X update_Y update_heading midpoint_X_def midpoint_Y_def midpoint_heading_def)




text \<open>
  C3. An update at the clock reading of the previous update (no time elapsed) leaves
  \<open>vLeft\<close>, \<open>vRight\<close> and \<open>omega\<close> as they were, and still advances \<open>X\<close>, \<open>Y\<close> and
  the heading by the midpoint step for the tick deltas.
\<close>

theorem update_zero_elapsed_time:
  assumes "millis b = previousUpdateTime od"
  shows "vLeft (fst (update (od, b))) = vLeft od \<and>
         vRight (fst (update (od, b))) = vRight od \<and>
         omega (fst (update (od, b))) = omega od \<and>
         X (fst (update (od, b))) = midpoint_X od b \<and>
         Y (fst (update (od, b))) = midpoint_Y od b \<and>
         heading (fst (update (od, b))) =
           atan2 (sin (midpoint_heading od b)) (cos (midpoint_heading od b))"
  using update_velocities_zero_time [OF assms]
  by (simp add: update_X update_Y update_heading)

theorem update_zero_elapsed_time_witness:
  "millis sample_board = previousUpdateTime sample_odometer \<and>
   vLeft (fst (update (sample_odometer, sample_board))) = 3 \<and>
   vRight (fst (update (sample_odometer, sample_board))) = 4 \<and>
   omega (fst (update (sample_odometer, sample_board))) = 5 \<and>
   X (fst (update (sample_odometer, sample_board))) = 17 / 2 \<and>
   Y (fst (update (sample_odometer, sample_board))) = 2 \<and>
   heading (fst (update (sample_odometer, sample_board))) = atan2 (sin (1 / 4)) (cos (1 / 4))"
proof -
  have h: "millis sample_board = previousUpdateTime sample_odometer"
    by (simp add: millis_def sample_board_def sample_odometer_def)
  from update_zero_elapsed_time [OF h] h show ?thesis
    by (simp add: sample_pose) (simp add: sample_odometer_def)
qed

text \<open>
  C5. When the count an update stores as previous count exceeds 32000 for either wheel,
  the update ends with a reset: both encoders read zero, both previous counts are zero,
  the previous update time is the clock's reading and the notice is on the serial port;
  \<open>X\<close>, \<open>Y\<close> and the heading are the values the update integrated.
\<close>

theorem update_overflow_reset:
  assumes "32000 < sint (countsLeft od b) \<or> 32000 < sint (countsRight od b)"
  shows "read (encoders (snd (update (od, b))) (encoder od MOTOR_LEFT)) = 0 \<and>
         read (encoders (snd (update (od, b))) (encoder od MOTOR_RIGHT)) = 0 \<and>
         previousLeftEncoderCounts (fst (update (od, b))) = 0 \<and>
         previousRightEncoderCounts (fst (update (od, b))) = 0 \<and>
         previousUpdateTime (fst (update (od, b))) = millis b \<and>
         Println_str ''Resetting odometers.''
           \<in> set (drop (length (serial b)) (serial (snd (update (od, b))))) \<and>
         X (fst (update (od, b))) = midpoint_X od b \<and>
         Y (fst (update (od, b))) = midpoint_Y od b \<and>
         heading (fst (update (od, b))) =
           atan2 (sin (midpoint_heading od b)) (cos (midpoint_heading od b))"
  using update_reset_odometer [OF assms] update_reset_serial [OF assms]
    update_reset_board [OF assms, of 0] update_reset_board [OF assms, of 1]
  by (simp add: update_X update_Y update_heading MOTOR_LEFT_def MOTOR_RIGHT_def)

theorem update_overflow_reset_witness:
  "(32000 < sint (countsLeft sample_odometer overflow_board) \<or>
    32000 < sint (countsRight sample_odometer overflow_board)) \<and>
   read (encoders (snd (update (sample_odometer, overflow_board)))
     (encoder sample_odometer MOTOR_LEFT)) = 0 \<and>
   read (encoders (snd (update (sample_odometer, overflow_board)))
     (encoder sample_odometer MOTOR_RIGHT)) = 0 \<and>
   previousLeftEncoderCounts (fst (update (sample_odometer, overflow_board))) = 0 \<and>
   previousRightEncoderCounts (fst (update (sample_odometer, overflow_board))) = 0 \<and>
   previousUpdateTime (fst (update (sample_odometer, overflow_board))) = 5040 \<and>
   Println_str ''Resetting odometers.''
     \<in> set (drop (length (serial overflow_board))
              (serial (snd (update (sample_odometer, overflow_board))))) \<and>
   X (fst (update (sample_odometer, overflow_board))) = midpoint_X sample_odometer overflow_board \<and>
   Y (fst (update (sample_odometer, overflow_board))) = midpoint_Y sample_odometer overflow_board \<and>
   heading (fst (update (sample_odometer, overflow_board))) =
     atan2 (sin (midpoint_heading sample_odometer overflow_board))
           (cos (midpoint_heading sample_odometer overflow_board))"
proof -
  have h: "32000 < sint (countsLeft sample_odometer overflow_board) \<or>
           32000 < sint (countsRight sample_odometer overflow_board)"
    by (simp add: overflow_counts)
  from update_overflow_reset [OF h] h show ?thesis
    by (simp add: millis_def overflow_board_def)
qed

text \<open>
  C10. When the counts an update stores as previous counts are both at most 32000,
  however far below zero, the update resets nothing: the encoders are untouched, the
  previous counts are the counts just read, and no notice is sent.
\<close>

theorem update_no_reset_below_threshold:
  assumes "sint (countsLeft od b) \<le> 32000" and "sint (countsRight od b) \<le> 32000"
  shows "encoders (snd (update (od, b))) = encoders b \<and>
         previousLeftEncoderCounts (fst (update (od, b))) = countsLeft od b \<and>
         previousRightEncoderCounts (fst (update (od, b))) = countsRight od b \<and>
         Println_str ''Resetting odometers.''
           \<notin> set (drop (length (serial b)) (serial (snd (update (od, b)))))"
  using update_quiet_odometer [OF assms] update_quiet_board [OF assms] by simp

theorem update_no_reset_below_threshold_witness:
  "sint (countsLeft sample_odometer reverse_board) = - 2147483648 \<and>
   sint (countsRight sample_odometer reverse_board) = 32000 \<and>
   encoders (snd (update (sample_odometer, reverse_board))) = reverse_encoders \<and>
   previousLeftEncoderCounts (fst (update (sample_odometer, reverse_board))) = - 2147483648 \<and>
   previousRightEncoderCounts (fst (update (sample_odometer, reverse_board))) = 32000 \<and>
   Println_str ''Resetting odometers.''
     \<notin> set (drop (length (serial reverse_board))
              (serial (snd (update (sample_odometer, reverse_board)))))"
proof -
  have l: "sint (countsLeft sample_odometer reverse_board) \<le> 32000"
    and r: "sint (countsRight sample_odometer reverse_board) \<le> 32000"
    by (simp_all add: reverse_counts)
  from update_no_reset_below_threshold [OF l r] show ?thesis
    by (simp add: reverse_counts) (simp add: reverse_board_def)
qed

end
